theory Spec2Isabelle
  imports Main "HOL-Library.Word"
begin

section \<open>JavaScript values\<close>

text \<open>
  The option bags, descriptors and errors that flow through \<^verbatim>\<open>CloudinaryService\<close> are
  plain JavaScript data. Numbers are integers here (the only numbers the service itself
  produces are the width 800 and the whole seconds of the clock). An object is the
  sequence of its property definitions in source order; as in an object literal, a
  later definition of a name overrides an earlier one.
\<close>

datatype jsval =
    JUndefined
  | JNull
  | JBool bool
  | JNum int
  | JStr string
  | JArr "jsval list"
  | JObj "(string \<times> jsval) list"

type_synonym jsobj = "(string \<times> jsval) list"

type_synonym byte = "8 word"

text \<open>\<^verbatim>\<open>obj.k\<close> on an object: the last definition of \<open>k\<close>, or \<^verbatim>\<open>undefined\<close>.\<close>

definition lookup :: "jsobj \<Rightarrow> string \<Rightarrow> jsval option" where
  "lookup obj k = map_of (rev obj) k"

definition get :: "jsobj \<Rightarrow> string \<Rightarrow> jsval" where
  "get obj k = (case lookup obj k of None \<Rightarrow> JUndefined | Some v \<Rightarrow> v)"

text \<open>The own property names of an object.\<close>

definition keys :: "jsobj \<Rightarrow> string set" where
  "keys obj = set (map fst obj)"

text \<open>
  Object spread: \<^verbatim>\<open>{...a, ...b}\<close> defines the properties of \<open>a\<close>, then those of \<open>b\<close>.
  An argument that is \<^verbatim>\<open>undefined\<close> spreads to nothing.
\<close>

definition spread :: "jsobj \<Rightarrow> jsobj \<Rightarrow> jsobj" where
  "spread a b = a @ b"

fun spreadable :: "jsobj option \<Rightarrow> jsobj" where
  "spreadable None = []"
| "spreadable (Some obj) = obj"

text \<open>The truth value of a condition such as \<^verbatim>\<open>if (error)\<close>.\<close>

fun truthy :: "jsval \<Rightarrow> bool" where
  "truthy JUndefined = False"
| "truthy JNull = False"
| "truthy (JBool b) = b"
| "truthy (JNum n) = (n \<noteq> 0)"
| "truthy (JStr s) = (s \<noteq> [])"
| "truthy (JArr xs) = True"
| "truthy (JObj ps) = True"

text \<open>\<^verbatim>\<open>Number.prototype.toString\<close> on an integer: decimal digits, with a minus sign.\<close>

fun show_nat :: "nat \<Rightarrow> string" where
  "show_nat n =
     (if n < 10 then [''0123456789'' ! n]
      else show_nat (n div 10) @ [''0123456789'' ! (n mod 10)])"

definition show_int :: "int \<Rightarrow> string" where
  "show_int i = (if i < 0 then CHR ''-'' # show_nat (nat (- i)) else show_nat (nat i))"

fun join :: "string \<Rightarrow> string list \<Rightarrow> string" where
  "join sep [] = []"
| "join sep [s] = s"
| "join sep (s # t # ss) = s @ sep @ join sep (t # ss)"

text \<open>
  String conversion, as a template literal \<^verbatim>\<open>`${v}`\<close> performs it. An array joins its
  elements with commas, \<^verbatim>\<open>undefined\<close> and \<^verbatim>\<open>null\<close> elements giving the empty string.
\<close>

fun js_to_string :: "jsval \<Rightarrow> string" where
  "js_to_string JUndefined = ''undefined''"
| "js_to_string JNull = ''null''"
| "js_to_string (JBool b) = (if b then ''true'' else ''false'')"
| "js_to_string (JNum n) = show_int n"
| "js_to_string (JStr s) = s"
| "js_to_string (JArr xs) =
     join '','' (map (\<lambda>x. if x = JUndefined \<or> x = JNull then [] else js_to_string x) xs)"
| "js_to_string (JObj ps) = ''[object Object]''"

definition TypeError :: jsval where
  "TypeError = JObj [(''name'', JStr ''TypeError'')]"

text \<open>
  A property read \<^verbatim>\<open>v.k\<close> on an arbitrary value: reading from \<^verbatim>\<open>undefined\<close> or
  \<^verbatim>\<open>null\<close> throws a TypeError (\<open>Inl\<close>); a primitive or an array has none of the
  names the service reads (\<^verbatim>\<open>status\<close>, \<^verbatim>\<open>error\<close>).
\<close>

fun member :: "jsval \<Rightarrow> string \<Rightarrow> jsval + jsval" where
  "member JUndefined k = Inl TypeError"
| "member JNull k = Inl TypeError"
| "member (JObj ps) k = Inr (get ps k)"
| "member v k = Inr JUndefined"

section \<open>Promises and observable events\<close>

datatype 'a promise = Pending | Fulfilled 'a | Rejected jsval

datatype level = LLog | LWarn | LError

text \<open>
  What a method of the service does, in the order in which it does it: calls into the
  vendor SDK and into sharp, log lines, the SDK invoking an upload callback, and the
  calls of \<^verbatim>\<open>resolve\<close> and \<^verbatim>\<open>reject\<close> of the promise the method returned.
\<close>

datatype event =
    Config jsobj
  | Ping
  | UploadStream "jsobj option"
  | Upload string "jsobj option"
  | Sharp "byte list" jsobj
  | Pipe "byte list"
  | ExecutorRejected jsval
  | Callback jsval jsval
  | Log level jsval
  | Resolve jsval
  | Reject jsval
  | Forward string "jsval list"

text \<open>A promise is settled by the first call of \<^verbatim>\<open>resolve\<close> or \<^verbatim>\<open>reject\<close>.\<close>

fun promise_of :: "event list \<Rightarrow> jsval promise" where
  "promise_of [] = Pending"
| "promise_of (Resolve v # es) = Fulfilled v"
| "promise_of (Reject e # es) = Rejected e"
| "promise_of (x # es) = promise_of es"

text \<open>
  A handler passed to \<^verbatim>\<open>then\<close> or \<^verbatim>\<open>catch\<close> returns a value (\<open>Inr\<close>) or throws
  (\<open>Inl\<close>), after the events it caused. \<^verbatim>\<open>p.then(h)\<close> runs \<open>h\<close> on the value of a
  fulfilled \<open>p\<close> and passes a rejection on; \<^verbatim>\<open>p.catch(h)\<close> runs \<open>h\<close> on the reason of
  a rejected \<open>p\<close> and passes a value on. Either gives a new promise.
\<close>

type_synonym handler = "jsval \<Rightarrow> (jsval + jsval) \<times> event list"

fun settle :: "(jsval + jsval) \<times> event list \<Rightarrow> jsval promise \<times> event list" where
  "settle (Inr v, evs) = (Fulfilled v, evs)"
| "settle (Inl e, evs) = (Rejected e, evs)"

fun promise_then :: "jsval promise \<Rightarrow> handler \<Rightarrow> jsval promise \<times> event list" where
  "promise_then Pending h = (Pending, [])"
| "promise_then (Fulfilled v) h = settle (h v)"
| "promise_then (Rejected e) h = (Rejected e, [])"

fun promise_catch :: "jsval promise \<Rightarrow> handler \<Rightarrow> jsval promise \<times> event list" where
  "promise_catch Pending h = (Pending, [])"
| "promise_catch (Fulfilled v) h = (Fulfilled v, [])"
| "promise_catch (Rejected e) h = settle (h e)"

section \<open>The service\<close>

subsection \<open>What the service calls\<close>

text \<open>
  The code outside \<^verbatim>\<open>cloudinary.service.ts\<close> that a call reaches, as parameters:
  \<^item> \<open>sharp\<close>: \<^verbatim>\<open>sharp(buffer).resize(options).toBuffer()\<close>, which gives the resized
    bytes (\<open>Inr\<close>) or fails (\<open>Inl\<close>), by a rejected promise or by throwing;
  \<^item> \<open>upload_stream\<close>: the arguments \<^verbatim>\<open>(error, result)\<close> with which the SDK invokes
    the callback of \<^verbatim>\<open>uploader.upload_stream(options, callback)\<close>, if it ever does,
    given the bytes piped into the stream (\<open>None\<close>: nothing was piped);
  \<^item> \<open>upload\<close>: the same for \<^verbatim>\<open>uploader.upload(filePath, options, callback)\<close>;
  \<^item> \<open>ping\<close>: the promise of \<^verbatim>\<open>api.ping()\<close>;
  \<^item> \<open>api_sign_request\<close>: \<^verbatim>\<open>utils.api_sign_request(params, secret)\<close>, a string by its
    declared type;
  \<^item> \<open>now\<close>: \<^verbatim>\<open>Date.now()\<close>, in milliseconds;
  \<^item> \<open>defaultCreateSignedUploadUrlOptions\<close>: the constant of that name, imported from
    \<^verbatim>\<open>cloudinary.constant\<close>.
\<close>

record externals =
  sharp :: "byte list \<Rightarrow> jsobj \<Rightarrow> jsval + byte list"
  upload_stream :: "jsobj option \<Rightarrow> byte list option \<Rightarrow> (jsval \<times> jsval) option"
  upload :: "string \<Rightarrow> jsobj option \<Rightarrow> (jsval \<times> jsval) option"
  ping :: "jsval promise"
  api_sign_request :: "jsobj \<Rightarrow> jsval \<Rightarrow> string"
  now :: int
  defaultCreateSignedUploadUrlOptions :: jsobj

text \<open>The SDK invoking a callback \<open>cb\<close>, or never doing so.\<close>

definition calls_back ::
  "(jsval \<times> jsval) option \<Rightarrow> (jsval \<Rightarrow> jsval \<Rightarrow> event list) \<Rightarrow> event list" where
  "calls_back reply cb =
     (case reply of None \<Rightarrow> [] | Some (error, result) \<Rightarrow> Callback error result # cb error result)"

subsection \<open>The constructor\<close>

text \<open>
  The service keeps the injected module options in \<^verbatim>\<open>this.options\<close> and hands a copy,
  \<^verbatim>\<open>Object.assign({}, options)\<close>, to \<^verbatim>\<open>cloudinary.config\<close>.
\<close>

record CloudinaryService =
  this_options :: jsobj

definition constructor :: "jsobj \<Rightarrow> CloudinaryService \<times> event list" where
  "constructor options = (\<lparr>this_options = options\<rparr>, [Config (spread [] options)])"

subsection \<open>pingCloudinary\<close>

text \<open>
  \<^verbatim>\<open>(res) => { this.logger.log(`Cloudinary connection ${res.status}`); }\<close>
\<close>

definition ping_fulfilled :: handler where
  "ping_fulfilled res =
     (case member res ''status'' of
        Inl e \<Rightarrow> (Inl e, [])
      | Inr status \<Rightarrow>
          (Inr JUndefined, [Log LLog (JStr (''Cloudinary connection '' @ js_to_string status))]))"

text \<open>
  \<^verbatim>\<open>(err) => { this.logger.warn("Cloudinary connection failed."); this.logger.error(err.error); }\<close>
\<close>

definition ping_rejected :: handler where
  "ping_rejected err =
     (case member err ''error'' of
        Inl e \<Rightarrow> (Inl e, [Log LWarn (JStr ''Cloudinary connection failed.'')])
      | Inr detail \<Rightarrow>
          (Inr JUndefined, [Log LWarn (JStr ''Cloudinary connection failed.''), Log LError detail]))"

text \<open>
  What a call of a method gives its caller: the value returned or the exception thrown,
  and the events of the call. For \<^verbatim>\<open>pingCloudinary\<close>, \<open>chain\<close> is the promise at the end
  of the \<^verbatim>\<open>then\<close>/\<^verbatim>\<open>catch\<close> chain, which the method builds and does not return.
\<close>

record ping_call =
  completion :: "jsval + jsval"
  events :: "event list"
  chain :: "jsval promise"

text \<open>
  The method body is a single expression statement: it has no \<^verbatim>\<open>return\<close>.
\<close>

definition pingCloudinary :: "externals \<Rightarrow> ping_call" where
  "pingCloudinary w =
     (let (p1, evs1) = promise_then (ping w) ping_fulfilled;
          (p2, evs2) = promise_catch p1 ping_rejected
      in \<lparr>completion = Inr JUndefined, events = Ping # evs1 @ evs2, chain = p2\<rparr>)"

subsection \<open>uploadFile\<close>

text \<open>
  Modelled from the spec: the interface \<^verbatim>\<open>IFile\<close> is imported from \<^verbatim>\<open>./interfaces\<close>,
  which is not among the sources; the spec gives an uploadable file as a byte buffer
  plus a declared media-type string, the two fields \<^verbatim>\<open>uploadFile\<close> reads.
\<close>

record IFile =
  buffer :: "byte list"
  mimetype :: string

text \<open>
  \<^verbatim>\<open>file.mimetype.match(/^image/)\<close>: the string starts with the five characters
  \<^verbatim>\<open>image\<close>.
\<close>

definition matches_image :: "string \<Rightarrow> bool" where
  "matches_image m = (take 5 m = ''image'')"

text \<open>The callback given to \<^verbatim>\<open>upload_stream\<close>.\<close>

definition uploadFile_callback :: "jsval \<Rightarrow> jsval \<Rightarrow> event list" where
  "uploadFile_callback error result =
     (if truthy error then [Log LError error, Reject error] else [Resolve result])"

text \<open>
  The executor of the returned promise is an \<^verbatim>\<open>async\<close> function. It first calls
  \<^verbatim>\<open>upload_stream\<close>; then, after the resize where there is one, it fills a
  \<^verbatim>\<open>Readable\<close> with one chunk and the end marker and pipes it into the upload stream
  (\<open>Pipe\<close> carries the chunk). When the awaited resize
  fails, the executor's own promise rejects (\<open>ExecutorRejected\<close>), which nothing
  observes: the rest of the body does not run, and the returned promise is settled
  only if the SDK invokes the callback of the stream it was given.
\<close>

definition uploadFile ::
  "externals \<Rightarrow> IFile \<Rightarrow> jsobj option \<Rightarrow> jsobj option \<Rightarrow> event list" where
  "uploadFile w file options sharpOptions =
     UploadStream options #
     (if sharpOptions \<noteq> None \<and> matches_image (mimetype file) then
        (let options' = spread [(''width'', JNum 800)] (spreadable sharpOptions) in
         Sharp (buffer file) options' #
         (case sharp w (buffer file) options' of
            Inl failure \<Rightarrow>
              ExecutorRejected failure #
              calls_back (upload_stream w options None) uploadFile_callback
          | Inr shrinkedImage \<Rightarrow>
              Pipe shrinkedImage #
              calls_back (upload_stream w options (Some shrinkedImage)) uploadFile_callback))
      else
        Pipe (buffer file) #
        calls_back (upload_stream w options (Some (buffer file))) uploadFile_callback)"

subsection \<open>uploadFileByPath\<close>

definition uploadFileByPath_callback :: "jsval \<Rightarrow> jsval \<Rightarrow> event list" where
  "uploadFileByPath_callback error result =
     (if truthy error then [Log LError error, Reject error] else [Resolve result])"

definition uploadFileByPath :: "externals \<Rightarrow> string \<Rightarrow> jsobj option \<Rightarrow> event list" where
  "uploadFileByPath w filePath options =
     Upload filePath options # calls_back (upload w filePath options) uploadFileByPath_callback"

subsection \<open>createSignedUploadUrl\<close>

text \<open>
  \<^verbatim>\<open>Math.floor(Date.now() / 1000)\<close> is the integer quotient rounded down: over the
  range of \<^verbatim>\<open>Date\<close> (at most 8.64e15 milliseconds either way) the floating-point
  quotient of a whole number of milliseconds that is not a multiple of 1000 stays at
  least 0.001 away from the next integer, more than its rounding error. The method is
  \<^verbatim>\<open>async\<close>: it gives a promise fulfilled with the object it returns.
\<close>

definition createSignedUploadUrl ::
  "externals \<Rightarrow> CloudinaryService \<Rightarrow> string \<Rightarrow> string \<Rightarrow> jsobj option \<Rightarrow> jsobj promise" where
  "createSignedUploadUrl w this publicId resourceType options =
     (let options' = spread (defaultCreateSignedUploadUrlOptions w) (spreadable options);
          url = ''https://api.cloudinary.com/v1_1/''
                @ js_to_string (get (this_options this) ''cloud_name'')
                @ ''/'' @ resourceType @ ''/upload'';
          timestamp = show_int (now w div 1000);
          signature = api_sign_request w
            [(''timestamp'', JStr timestamp),
             (''folder'', get options' ''folder''),
             (''eager'', get options' ''eager''),
             (''public_id'', JStr publicId)]
            (get (this_options this) ''api_secret'')
      in Fulfilled
           [(''url'', JStr url),
            (''publicId'', JStr publicId),
            (''apiKey'', get (this_options this) ''api_key''),
            (''timestamp'', JStr timestamp),
            (''eager'', get options' ''eager''),
            (''folder'', get options' ''folder''),
            (''signature'', JStr signature)])"

subsection \<open>The passthroughs\<close>

text \<open>
  Each of these methods is one call of an SDK function with the arguments it was given,
  returning what the SDK returns; \<open>Forward\<close> records the function and the arguments.
\<close>

definition getAsset :: "string \<Rightarrow> jsval \<Rightarrow> event list" where
  "getAsset publicId options = [Forward ''api.resource'' [JStr publicId, options]]"

definition listAssets :: "jsval \<Rightarrow> event list" where
  "listAssets options = [Forward ''api.resources'' [options]]"

definition deleteAssets :: "string list \<Rightarrow> jsval \<Rightarrow> event list" where
  "deleteAssets publicIds options =
     [Forward ''api.delete_resources'' [JArr (map JStr publicIds), options]]"

definition updateAsset :: "string \<Rightarrow> jsval \<Rightarrow> event list" where
  "updateAsset publicId options = [Forward ''api.update'' [JStr publicId, options]]"

definition renameAsset :: "string \<Rightarrow> string \<Rightarrow> jsval \<Rightarrow> event list" where
  "renameAsset fromPublicId toPublicId options =
     [Forward ''uploader.rename'' [JStr fromPublicId, JStr toPublicId, options]]"

definition deleteAsset :: "string \<Rightarrow> jsval \<Rightarrow> event list" where
  "deleteAsset publicId options = [Forward ''uploader.destroy'' [JStr publicId, options]]"

definition getTransformedUrl :: "string \<Rightarrow> jsval \<Rightarrow> event list" where
  "getTransformedUrl publicId options = [Forward ''url'' [JStr publicId, options]]"

definition getImageTag :: "string \<Rightarrow> jsval \<Rightarrow> event list" where
  "getImageTag publicId options = [Forward ''image'' [JStr publicId, options]]"

definition getVideoTag :: "string \<Rightarrow> jsval \<Rightarrow> event list" where
  "getVideoTag publicId options = [Forward ''video'' [JStr publicId, options]]"

subsection \<open>The service in use\<close>

text \<open>
  A call of a method on a service object gives the object afterwards and what the call
  did. No method body assigns to \<^verbatim>\<open>this.options\<close> or writes into the object it holds;
  \<^verbatim>\<open>createSignedUploadUrl\<close> assigns the merged options to its own parameter.
\<close>

datatype call =
    PingCloudinary
  | UploadFile IFile "jsobj option" "jsobj option"
  | UploadFileByPath string "jsobj option"
  | CreateSignedUploadUrl string string "jsobj option"
  | GetAsset string jsval
  | ListAssets jsval
  | DeleteAssets "string list" jsval
  | UpdateAsset string jsval
  | RenameAsset string string jsval
  | DeleteAsset string jsval
  | GetTransformedUrl string jsval
  | GetImageTag string jsval
  | GetVideoTag string jsval

datatype effect = Trace "event list" | Signed "jsobj promise"

fun trace_of :: "effect \<Rightarrow> event list" where
  "trace_of (Trace evs) = evs"
| "trace_of (Signed p) = []"

fun call_method :: "externals \<Rightarrow> CloudinaryService \<Rightarrow> call \<Rightarrow> CloudinaryService \<times> effect" where
  "call_method w this PingCloudinary = (this, Trace (events (pingCloudinary w)))"
| "call_method w this (UploadFile file options sharpOptions) =
     (this, Trace (uploadFile w file options sharpOptions))"
| "call_method w this (UploadFileByPath filePath options) =
     (this, Trace (uploadFileByPath w filePath options))"
| "call_method w this (CreateSignedUploadUrl publicId resourceType options) =
     (this, Signed (createSignedUploadUrl w this publicId resourceType options))"
| "call_method w this (GetAsset publicId options) = (this, Trace (getAsset publicId options))"
| "call_method w this (ListAssets options) = (this, Trace (listAssets options))"
| "call_method w this (DeleteAssets publicIds options) =
     (this, Trace (deleteAssets publicIds options))"
| "call_method w this (UpdateAsset publicId options) =
     (this, Trace (updateAsset publicId options))"
| "call_method w this (RenameAsset fromPublicId toPublicId options) =
     (this, Trace (renameAsset fromPublicId toPublicId options))"
| "call_method w this (DeleteAsset publicId options) =
     (this, Trace (deleteAsset publicId options))"
| "call_method w this (GetTransformedUrl publicId options) =
     (this, Trace (getTransformedUrl publicId options))"
| "call_method w this (GetImageTag publicId options) =
     (this, Trace (getImageTag publicId options))"
| "call_method w this (GetVideoTag publicId options) =
     (this, Trace (getVideoTag publicId options))"

text \<open>A sequence of calls, each in the environment it meets.\<close>

fun run :: "CloudinaryService \<Rightarrow> (externals \<times> call) list \<Rightarrow> CloudinaryService \<times> event list" where
  "run this [] = (this, [])"
| "run this ((w, c) # cs) =
     (let (this', eff) = call_method w this c;
          (this'', evs) = run this' cs
      in (this'', trace_of eff @ evs))"

subsection \<open>Reading a trace\<close>

fun is_Log :: "event \<Rightarrow> bool" where
  "is_Log (Log l v) = True"
| "is_Log e = False"

fun is_Sharp :: "event \<Rightarrow> bool" where
  "is_Sharp (Sharp bytes options) = True"
| "is_Sharp e = False"

fun is_Pipe :: "event \<Rightarrow> bool" where
  "is_Pipe (Pipe bytes) = True"
| "is_Pipe e = False"

fun is_UploadStream :: "event \<Rightarrow> bool" where
  "is_UploadStream (UploadStream options) = True"
| "is_UploadStream e = False"

fun is_Config :: "event \<Rightarrow> bool" where
  "is_Config (Config options) = True"
| "is_Config e = False"

text \<open>
  \<open>precedes p q evs\<close>: an event satisfying \<open>p\<close> occurs, no event satisfying \<open>q\<close> occurs
  before the first of them, and one occurs after it.
\<close>

fun precedes :: "(event \<Rightarrow> bool) \<Rightarrow> (event \<Rightarrow> bool) \<Rightarrow> event list \<Rightarrow> bool" where
  "precedes p q [] = False"
| "precedes p q (e # es) =
     (if q e then False else if p e then list_ex q es else precedes p q es)"

subsection \<open>Sample environments\<close>

text \<open>
  Two environments on which the model is evaluated below. In \<open>healthy\<close> the resize
  gives two bytes, the remote service accepts what it is sent, and signing joins the
  parameter values and the secret with commas (a stand-in for the SDK's hash); in
  \<open>corrupt\<close> the resize fails, and the SDK never calls back for a stream into which
  nothing was piped. \<open>demo\<close> is a service with the three credentials configured and
  \<open>quota\<close> an error descriptor of the remote service.
\<close>

definition healthy :: externals where
  "healthy =
     \<lparr>sharp = (\<lambda>bytes options. Inr [7, 7]),
      upload_stream = (\<lambda>options bytes.
         case bytes of
           None \<Rightarrow> None
         | Some b \<Rightarrow> Some (JUndefined, JObj [(''bytes'', JNum (int (length b)))])),
      upload = (\<lambda>filePath options. Some (JUndefined, JObj [(''public_id'', JStr filePath)])),
      ping = Fulfilled (JObj [(''status'', JStr ''ok'')]),
      api_sign_request = (\<lambda>params secret. js_to_string (JArr (map snd params @ [secret]))),
      now = 1999,
      defaultCreateSignedUploadUrlOptions = [(''folder'', JStr []), (''eager'', JArr [])]\<rparr>"

definition corrupt :: externals where
  "corrupt = healthy\<lparr>sharp := (\<lambda>bytes options. Inl (JStr ''unsupported image format''))\<rparr>"

definition png :: IFile where
  "png = \<lparr>buffer = [1, 2, 3], mimetype = ''image/png''\<rparr>"

definition pdf :: IFile where
  "pdf = \<lparr>buffer = [1, 2, 3], mimetype = ''application/pdf''\<rparr>"

definition demo :: CloudinaryService where
  "demo = \<lparr>this_options =
      [(''cloud_name'', JStr ''demo''), (''api_key'', JStr ''k1''), (''api_secret'', JStr ''s3'')]\<rparr>"

definition quota :: jsval where
  "quota = JObj [(''message'', JStr ''quota exceeded''), (''http_code'', JNum 420)]"

section \<open>Properties\<close>

subsection \<open>Objects and traces\<close>

lemma lookup_spread:
  "lookup (spread a b) k = (case lookup b k of None \<Rightarrow> lookup a k | Some v \<Rightarrow> Some v)"
  by (simp add: lookup_def spread_def map_add_def split: option.split)

lemma get_spread:
  "get (spread a b) k = (case lookup b k of None \<Rightarrow> get a k | Some v \<Rightarrow> v)"
  by (simp add: get_def lookup_spread split: option.split)

lemma lookup_None_iff: "lookup obj k = None \<longleftrightarrow> k \<notin> keys obj"
  by (simp add: lookup_def keys_def map_of_eq_None_iff)

lemma get_spread_absent: "k \<notin> keys b \<Longrightarrow> get (spread a b) k = get a k"
  using lookup_None_iff [of b k] by (simp add: get_spread)

lemma get_spread_present: "k \<in> keys b \<Longrightarrow> get (spread a b) k = get b k"
  using lookup_None_iff [of b k] by (auto simp add: get_def lookup_spread split: option.splits)

lemma promise_of_append_Pending:
  "promise_of before = Pending \<Longrightarrow> promise_of (before @ evs) = promise_of evs"
  by (induction before rule: promise_of.induct) simp_all

lemma settle_snd: "snd (settle r) = snd r"
  by (cases r rule: settle.cases) simp_all

lemma logs_no_Config: "list_all is_Log evs \<Longrightarrow> filter is_Config evs = []"
  by (induction evs) (auto elim: is_Log.elims)

subsection \<open>pingCloudinary\<close>

lemma ping_fulfilled_logs: "list_all is_Log (snd (ping_fulfilled v))"
  by (cases "member v ''status''") (simp_all add: ping_fulfilled_def)

lemma ping_rejected_logs: "list_all is_Log (snd (ping_rejected v))"
  by (cases "member v ''error''") (simp_all add: ping_rejected_def)


lemma pingCloudinary_logs_only:
  "events (pingCloudinary w) = Ping # tl (events (pingCloudinary w))"
  "list_all is_Log (tl (events (pingCloudinary w)))"
proof -
  show "events (pingCloudinary w) = Ping # tl (events (pingCloudinary w))"
    by (simp add: pingCloudinary_def case_prod_beta)
  have then_logs: "list_all is_Log (snd (promise_then p ping_fulfilled))" for p
    by (cases p) (simp_all add: settle_snd ping_fulfilled_logs)
  have catch_logs: "list_all is_Log (snd (promise_catch p ping_rejected))" for p
    by (cases p) (simp_all add: settle_snd ping_rejected_logs)
  show "list_all is_Log (tl (events (pingCloudinary w)))"
    by (simp add: pingCloudinary_def case_prod_beta then_logs catch_logs)
qed



subsection \<open>createSignedUploadUrl\<close>

text \<open>
  Claim C2. The signature in the returned object is \<^verbatim>\<open>api_sign_request\<close> applied to
  exactly the four parameters timestamp (the whole seconds of the clock, as a decimal
  string), folder and eager (of the merged options) and public_id, with the configured
  \<^verbatim>\<open>api_secret\<close>; signing the returned timestamp, folder, eager and publicId again with
  that secret gives the returned signature.
\<close>

theorem createSignedUploadUrl_signature:
  "\<exists>r. createSignedUploadUrl w this publicId resourceType options = Fulfilled r
     \<and> get r ''signature'' =
         JStr (api_sign_request w
           [(''timestamp'', JStr (show_int (now w div 1000))),
            (''folder'',
               get (spread (defaultCreateSignedUploadUrlOptions w) (spreadable options)) ''folder''),
            (''eager'',
               get (spread (defaultCreateSignedUploadUrlOptions w) (spreadable options)) ''eager''),
            (''public_id'', JStr publicId)]
           (get (this_options this) ''api_secret''))
     \<and> get r ''signature'' =
         JStr (api_sign_request w
           [(''timestamp'', get r ''timestamp''),
            (''folder'', get r ''folder''),
            (''eager'', get r ''eager''),
            (''public_id'', get r ''publicId'')]
           (get (this_options this) ''api_secret''))"
  by (simp add: createSignedUploadUrl_def Let_def get_def lookup_def)

text \<open>
  Claim C2, at \<^verbatim>\<open>createSignedUploadUrl("abc", "image", {})\<close> with the clock at 1999 ms,
  the defaults \<^verbatim>\<open>{folder: "", eager: []}\<close> and a signing function that joins what it
  is given: the signature is that of timestamp 1, folder "", eager [], public_id abc
  and the secret.
\<close>

theorem createSignedUploadUrl_signature_witness:
  "createSignedUploadUrl healthy demo ''abc'' ''image'' (Some []) =
     Fulfilled
       [(''url'', JStr ''https://api.cloudinary.com/v1_1/demo/image/upload''),
        (''publicId'', JStr ''abc''),
        (''apiKey'', JStr ''k1''),
        (''timestamp'', JStr ''1''),
        (''eager'', JArr []),
        (''folder'', JStr []),
        (''signature'',
           JStr (api_sign_request healthy
             [(''timestamp'', JStr ''1''), (''folder'', JStr []), (''eager'', JArr []),
              (''public_id'', JStr ''abc'')]
             (JStr ''s3'')))]"
  using createSignedUploadUrl_signature [of healthy demo "''abc''" "''image''" "Some []"]
  by (simp add: createSignedUploadUrl_def Let_def get_def lookup_def spread_def healthy_def
      demo_def show_int_def)

text \<open>
  Claim C7. Every call gives a promise fulfilled with an object of exactly the seven
  properties url, publicId, apiKey, timestamp, eager, folder and signature, whatever
  their values; url is the upload endpoint for the configured cloud name and the given
  resource type, apiKey is the configured \<^verbatim>\<open>api_key\<close>, and timestamp is the decimal
  string of the number \<open>s\<close> of whole seconds on the clock: \<open>1000 s \<le> now < 1000 s + 1000\<close>.
\<close>

theorem createSignedUploadUrl_shape:
  "\<exists>s r. createSignedUploadUrl w this publicId resourceType options = Fulfilled r
     \<and> map fst r =
         [''url'', ''publicId'', ''apiKey'', ''timestamp'', ''eager'', ''folder'', ''signature'']
     \<and> get r ''url'' =
         JStr (''https://api.cloudinary.com/v1_1/''
               @ js_to_string (get (this_options this) ''cloud_name'')
               @ ''/'' @ resourceType @ ''/upload'')
     \<and> get r ''publicId'' = JStr publicId
     \<and> get r ''apiKey'' = get (this_options this) ''api_key''
     \<and> get r ''timestamp'' = JStr (show_int s)
     \<and> 1000 * s \<le> now w \<and> now w < 1000 * s + 1000"
proof -
  have "1000 * (now w div 1000) \<le> now w \<and> now w < 1000 * (now w div 1000) + 1000"
    by presburger
  then show ?thesis
    by (intro exI [of _ "now w div 1000"])
       (simp add: createSignedUploadUrl_def Let_def get_def lookup_def)
qed

text \<open>
  Claim C7, with no options argument and no defaults at all: folder and eager are
  still properties of the result, with the value \<^verbatim>\<open>undefined\<close>.
\<close>

theorem createSignedUploadUrl_shape_witness:
  "createSignedUploadUrl (healthy\<lparr>defaultCreateSignedUploadUrlOptions := []\<rparr>) demo
       ''abc'' ''video'' None =
     Fulfilled
       [(''url'', JStr ''https://api.cloudinary.com/v1_1/demo/video/upload''),
        (''publicId'', JStr ''abc''),
        (''apiKey'', JStr ''k1''),
        (''timestamp'', JStr ''1''),
        (''eager'', JUndefined),
        (''folder'', JUndefined),
        (''signature'', JStr ''1,,,abc,s3'')]"
  using createSignedUploadUrl_shape
          [of "healthy\<lparr>defaultCreateSignedUploadUrlOptions := []\<rparr>" demo "''abc''" "''video''" None]
  by (simp add: createSignedUploadUrl_def Let_def get_def lookup_def spread_def healthy_def
      demo_def show_int_def)

text \<open>
  Claim C10. Of the options argument only the properties folder and eager reach the
  result: two arguments that agree on these two (each has the property with the same
  value, or each lacks it; an omitted argument has no property) give the same promise
  in the same environment, so at the same clock time.
\<close>

theorem createSignedUploadUrl_reads_folder_and_eager:
  assumes "lookup (spreadable options1) ''folder'' = lookup (spreadable options2) ''folder''"
    and "lookup (spreadable options1) ''eager'' = lookup (spreadable options2) ''eager''"
  shows "createSignedUploadUrl w this publicId resourceType options1
       = createSignedUploadUrl w this publicId resourceType options2"
  using assms by (simp add: createSignedUploadUrl_def Let_def get_spread)

text \<open>
  Claim C10, at two arguments with the same folder, no eager, and different other
  properties.
\<close>

theorem createSignedUploadUrl_reads_folder_and_eager_witness:
  "lookup (spreadable (Some [(''folder'', JStr ''pets''), (''tags'', JStr ''cat'')])) ''folder''
     = lookup (spreadable (Some [(''invalidate'', JBool True), (''folder'', JStr ''pets'')])) ''folder''
   \<and> lookup (spreadable (Some [(''folder'', JStr ''pets''), (''tags'', JStr ''cat'')])) ''eager''
     = lookup (spreadable (Some [(''invalidate'', JBool True), (''folder'', JStr ''pets'')])) ''eager''
   \<and> createSignedUploadUrl healthy demo ''abc'' ''image''
        (Some [(''folder'', JStr ''pets''), (''tags'', JStr ''cat'')])
     = createSignedUploadUrl healthy demo ''abc'' ''image''
        (Some [(''invalidate'', JBool True), (''folder'', JStr ''pets'')])"
  using createSignedUploadUrl_reads_folder_and_eager
          [of "Some [(''folder'', JStr ''pets''), (''tags'', JStr ''cat'')]"
              "Some [(''invalidate'', JBool True), (''folder'', JStr ''pets'')]"
              healthy demo "''abc''" "''image''"]
  by (simp add: lookup_def)

text \<open>
  A property that is present with the value \<^verbatim>\<open>undefined\<close> is not an absent one: spread
  lets it override the default.
\<close>

lemma explicit_undefined_overrides_default:
  "createSignedUploadUrl healthy demo ''abc'' ''image'' (Some [(''folder'', JUndefined)])
     \<noteq> createSignedUploadUrl healthy demo ''abc'' ''image'' (Some [])"
  by (simp add: createSignedUploadUrl_def Let_def get_def lookup_def spread_def healthy_def)

subsection \<open>uploadFile and uploadFileByPath\<close>

lemma filter_calls_back_uploadFile:
  "filter is_Sharp (calls_back reply uploadFile_callback) = []"
  "filter is_Pipe (calls_back reply uploadFile_callback) = []"
  "list_ex is_Pipe (calls_back reply uploadFile_callback) = False"
  by (simp_all add: calls_back_def uploadFile_callback_def split: option.split)

text \<open>
  Claim C3. For a file whose media type starts with \<^verbatim>\<open>image\<close> and resize options that
  are present, \<^verbatim>\<open>uploadFile\<close> calls sharp once, on the file's buffer, with the caller's
  resize options over the default width 800: the width is 800 when the caller's
  options have no width property, and every property the caller gave keeps the
  caller's value. What is piped into the upload stream is the output of that resize
  and nothing else (nothing at all when the resize fails), and the resize comes before
  the pipe.
\<close>

theorem uploadFile_resizes_images:
  assumes "matches_image (mimetype file)"
  shows "filter is_Sharp (uploadFile w file options (Some resizeOptions))
           = [Sharp (buffer file) (spread [(''width'', JNum 800)] resizeOptions)]
       \<and> get (spread [(''width'', JNum 800)] resizeOptions) ''width''
           = (if ''width'' \<in> keys resizeOptions then get resizeOptions ''width'' else JNum 800)
       \<and> (\<forall>k \<in> keys resizeOptions.
            get (spread [(''width'', JNum 800)] resizeOptions) k = get resizeOptions k)
       \<and> filter is_Pipe (uploadFile w file options (Some resizeOptions))
           = (case sharp w (buffer file) (spread [(''width'', JNum 800)] resizeOptions) of
                Inl failure \<Rightarrow> []
              | Inr resized \<Rightarrow> [Pipe resized])
       \<and> (\<forall>resized. sharp w (buffer file) (spread [(''width'', JNum 800)] resizeOptions) = Inr resized
            \<longrightarrow> precedes is_Sharp is_Pipe (uploadFile w file options (Some resizeOptions)))"
proof (intro conjI)
  show "filter is_Sharp (uploadFile w file options (Some resizeOptions))
           = [Sharp (buffer file) (spread [(''width'', JNum 800)] resizeOptions)]"
    using assms by (simp add: uploadFile_def Let_def filter_calls_back_uploadFile split: sum.split)
  show "get (spread [(''width'', JNum 800)] resizeOptions) ''width''
           = (if ''width'' \<in> keys resizeOptions then get resizeOptions ''width'' else JNum 800)"
    by (simp add: get_spread_absent get_spread_present) (simp add: get_def lookup_def)
  show "\<forall>k \<in> keys resizeOptions.
            get (spread [(''width'', JNum 800)] resizeOptions) k = get resizeOptions k"
    by (simp add: get_spread_present)
  show "filter is_Pipe (uploadFile w file options (Some resizeOptions))
           = (case sharp w (buffer file) (spread [(''width'', JNum 800)] resizeOptions) of
                Inl failure \<Rightarrow> []
              | Inr resized \<Rightarrow> [Pipe resized])"
    using assms by (simp add: uploadFile_def Let_def filter_calls_back_uploadFile split: sum.split)
  show "\<forall>resized. sharp w (buffer file) (spread [(''width'', JNum 800)] resizeOptions) = Inr resized
            \<longrightarrow> precedes is_Sharp is_Pipe (uploadFile w file options (Some resizeOptions))"
    using assms by (simp add: uploadFile_def Let_def)
qed

text \<open>
  Claim C3, at a PNG with the resize options \<^verbatim>\<open>{height: 600}\<close>: sharp gets
  \<^verbatim>\<open>{width: 800, height: 600}\<close> and its two output bytes are what is piped.
\<close>

theorem uploadFile_resizes_images_witness:
  "matches_image (mimetype png)
   \<and> filter is_Sharp (uploadFile healthy png None (Some [(''height'', JNum 600)]))
       = [Sharp [1, 2, 3] [(''width'', JNum 800), (''height'', JNum 600)]]
   \<and> filter is_Pipe (uploadFile healthy png None (Some [(''height'', JNum 600)])) = [Pipe [7, 7]]
   \<and> precedes is_Sharp is_Pipe (uploadFile healthy png None (Some [(''height'', JNum 600)]))"
  using uploadFile_resizes_images [of png healthy None "[(''height'', JNum 600)]"]
  by (simp add: matches_image_def png_def healthy_def spread_def)

text \<open>
  Claim C4. When the file's media type does not start with \<^verbatim>\<open>image\<close>, or when no
  resize options are given, \<^verbatim>\<open>uploadFile\<close> never calls sharp and pipes the file's own
  buffer into the upload stream: the call is the opening of the stream, the pipe of the
  original bytes, and the SDK's callback.
\<close>

theorem uploadFile_streams_original:
  assumes "\<not> matches_image (mimetype file) \<or> resizeOptions = None"
  shows "filter is_Pipe (uploadFile w file options resizeOptions) = [Pipe (buffer file)]
       \<and> filter is_Sharp (uploadFile w file options resizeOptions) = []
       \<and> uploadFile w file options resizeOptions =
           UploadStream options # Pipe (buffer file) #
           calls_back (upload_stream w options (Some (buffer file))) uploadFile_callback"
  using assms by (auto simp add: uploadFile_def filter_calls_back_uploadFile)

text \<open>
  Claim C4, at a PDF with resize options, and at a PNG without: the three bytes of the
  file are piped.
\<close>

theorem uploadFile_streams_original_witness:
  "\<not> matches_image (mimetype pdf)
   \<and> filter is_Pipe (uploadFile healthy pdf None (Some [(''width'', JNum 100)])) = [Pipe [1, 2, 3]]
   \<and> filter is_Sharp (uploadFile healthy pdf None (Some [(''width'', JNum 100)])) = []
   \<and> filter is_Pipe (uploadFile healthy png None None) = [Pipe [1, 2, 3]]"
  using uploadFile_streams_original [of pdf "Some [(''width'', JNum 100)]" healthy None]
        uploadFile_streams_original [of png None healthy None]
  by (simp add: matches_image_def pdf_def png_def filter_calls_back_uploadFile)

text \<open>
  When the resize fails, the failure goes to the executor's own promise only. The
  stream is already open and nothing is piped into it; whether the returned promise
  ever settles, and with what, is up to the SDK's callback for that stream.
\<close>

lemma uploadFile_resize_failure:
  assumes "matches_image (mimetype file)"
    and "sharp w (buffer file) (spread [(''width'', JNum 800)] resizeOptions) = Inl failure"
  shows "uploadFile w file options (Some resizeOptions) =
           [UploadStream options,
            Sharp (buffer file) (spread [(''width'', JNum 800)] resizeOptions),
            ExecutorRejected failure]
           @ calls_back (upload_stream w options None) uploadFile_callback"
  using assms by (simp add: uploadFile_def Let_def)

text \<open>
  Claim C5 says that a failed resize rejects the returned promise with that failure.
  At a PNG that sharp cannot read, with resize options \<^verbatim>\<open>{}\<close>, the call opens the
  upload stream, calls sharp, and ends with the rejection of the executor's own
  promise: \<^verbatim>\<open>reject\<close> is never called, and the returned promise stays pending.
\<close>

theorem uploadFile_resize_failure_unsettled:
  "uploadFile corrupt png None (Some []) =
     [UploadStream None, Sharp [1, 2, 3] [(''width'', JNum 800)],
      ExecutorRejected (JStr ''unsupported image format'')]
   \<and> promise_of (uploadFile corrupt png None (Some [])) = Pending"
  by (simp add: uploadFile_def corrupt_def healthy_def png_def matches_image_def spread_def
      calls_back_def)

text \<open>
  Claim C6 says that the resize comes before the upload stream is opened. At a PNG
  with resize options \<^verbatim>\<open>{}\<close> and a resize that succeeds, the stream is opened first and
  sharp is called after it.
\<close>

theorem uploadFile_opens_before_resize:
  "precedes is_UploadStream is_Sharp (uploadFile healthy png None (Some []))
   \<and> \<not> precedes is_Sharp is_UploadStream (uploadFile healthy png None (Some []))"
  by (simp add: uploadFile_def healthy_def png_def matches_image_def spread_def calls_back_def)

text \<open>
  Claim C6, amended. For an image file, present resize options and a resize that
  succeeds, \<^verbatim>\<open>uploadFile\<close> first opens the upload stream, then resizes, then pipes the
  resized bytes: the resize comes after the opening of the stream and before anything
  is written to it.
\<close>

theorem uploadFile_opens_resizes_pipes:
  assumes "matches_image (mimetype file)"
    and "sharp w (buffer file) (spread [(''width'', JNum 800)] resizeOptions) = Inr resized"
  shows "precedes is_UploadStream is_Sharp (uploadFile w file options (Some resizeOptions))
       \<and> precedes is_Sharp is_Pipe (uploadFile w file options (Some resizeOptions))
       \<and> take 3 (uploadFile w file options (Some resizeOptions)) =
           [UploadStream options,
            Sharp (buffer file) (spread [(''width'', JNum 800)] resizeOptions),
            Pipe resized]"
  using assms by (simp add: uploadFile_def Let_def)

text \<open>Claim C6, amended, at a PNG with resize options \<^verbatim>\<open>{}\<close>.\<close>

theorem uploadFile_opens_resizes_pipes_witness:
  "matches_image (mimetype png)
   \<and> sharp healthy (buffer png) (spread [(''width'', JNum 800)] []) = Inr [7, 7]
   \<and> take 3 (uploadFile healthy png None (Some [])) =
       [UploadStream None, Sharp [1, 2, 3] [(''width'', JNum 800)], Pipe [7, 7]]"
  using uploadFile_opens_resizes_pipes [of png healthy "[]" "[7, 7]" None]
  by (simp add: matches_image_def png_def healthy_def spread_def)

text \<open>
  What the SDK's callback does once it is invoked: the callback events follow whatever
  came before, and they alone settle the promise when nothing before them did.
\<close>

lemma callback_settles:
  assumes "evs = before @ Callback error result #
             (if truthy error then [Log LError error, Reject error] else [Resolve result])"
    and "promise_of before = Pending"
  shows "Callback error result \<in> set evs
       \<and> (truthy error \<longrightarrow>
            promise_of evs = Rejected error
            \<and> (\<exists>before after.
                  evs = before @ [Callback error result, Log LError error, Reject error] @ after
                  \<and> promise_of before = Pending))
       \<and> (\<not> truthy error \<longrightarrow>
            promise_of evs = Fulfilled result
            \<and> (\<exists>before after.
                  evs = before @ [Callback error result, Resolve result] @ after
                  \<and> promise_of before = Pending))"
proof (intro conjI impI)
  show "Callback error result \<in> set evs"
    using assms(1) by simp
next
  assume "truthy error"
  with assms show "promise_of evs = Rejected error"
    by (simp add: promise_of_append_Pending)
next
  assume "truthy error"
  with assms
  have "evs = before @ [Callback error result, Log LError error, Reject error] @ []
        \<and> promise_of before = Pending"
    by simp
  then show "\<exists>before after.
      evs = before @ [Callback error result, Log LError error, Reject error] @ after
      \<and> promise_of before = Pending"
    by blast
next
  assume "\<not> truthy error"
  with assms show "promise_of evs = Fulfilled result"
    by (simp add: promise_of_append_Pending)
next
  assume "\<not> truthy error"
  with assms
  have "evs = before @ [Callback error result, Resolve result] @ [] \<and> promise_of before = Pending"
    by simp
  then show "\<exists>before after.
      evs = before @ [Callback error result, Resolve result] @ after
      \<and> promise_of before = Pending"
    by blast
qed

text \<open>
  On each of its three paths \<^verbatim>\<open>uploadFile\<close> leaves the promise pending until the SDK
  replies, and the reply is the SDK's for the stream opened with the caller's options
  and for what was piped into it: the resized bytes, the file's own bytes, or nothing
  when the resize failed.
\<close>

lemma uploadFile_until_reply:
  "\<exists>before. uploadFile w file options resizeOptions
       = before @ calls_back
           (upload_stream w options
              (if resizeOptions \<noteq> None \<and> matches_image (mimetype file)
               then (case sharp w (buffer file)
                            (spread [(''width'', JNum 800)] (spreadable resizeOptions)) of
                       Inl failure \<Rightarrow> None
                     | Inr resized \<Rightarrow> Some resized)
               else Some (buffer file)))
           uploadFile_callback
     \<and> promise_of before = Pending"
proof (cases "resizeOptions \<noteq> None \<and> matches_image (mimetype file)")
  case False
  then have "uploadFile w file options resizeOptions
      = [UploadStream options, Pipe (buffer file)]
        @ calls_back (upload_stream w options (Some (buffer file))) uploadFile_callback"
    by (auto simp add: uploadFile_def)
  moreover have "promise_of [UploadStream options, Pipe (buffer file)] = Pending" by simp
  ultimately show ?thesis using False by (intro exI [of _ "[UploadStream options, Pipe (buffer file)]"]) auto
next
  case True
  let ?o = "spread [(''width'', JNum 800)] (spreadable resizeOptions)"
  show ?thesis
  proof (cases "sharp w (buffer file) ?o")
    case (Inl failure)
    with True have "uploadFile w file options resizeOptions
      = [UploadStream options, Sharp (buffer file) ?o, ExecutorRejected failure]
        @ calls_back (upload_stream w options None) uploadFile_callback"
      by (simp add: uploadFile_def Let_def)
    moreover have "promise_of [UploadStream options, Sharp (buffer file) ?o, ExecutorRejected failure]
        = Pending" by simp
    ultimately show ?thesis using True Inl
      by (intro exI [of _ "[UploadStream options, Sharp (buffer file) ?o, ExecutorRejected failure]"])
         simp
  next
    case (Inr resized)
    with True have "uploadFile w file options resizeOptions
      = [UploadStream options, Sharp (buffer file) ?o, Pipe resized]
        @ calls_back (upload_stream w options (Some resized)) uploadFile_callback"
      by (simp add: uploadFile_def Let_def)
    moreover have "promise_of [UploadStream options, Sharp (buffer file) ?o, Pipe resized]
        = Pending" by simp
    ultimately show ?thesis using True Inr
      by (intro exI [of _ "[UploadStream options, Sharp (buffer file) ?o, Pipe resized]"]) simp
  qed
qed

text \<open>
  Claim C8. Take a call of \<^verbatim>\<open>uploadFileByPath\<close>, or a call of \<^verbatim>\<open>uploadFile\<close>, and let
  the SDK reply to it by invoking the callback with \<^verbatim>\<open>(error, result)\<close>: for
  \<^verbatim>\<open>uploadFileByPath\<close> the reply to \<^verbatim>\<open>upload(filePath, options)\<close>, for \<^verbatim>\<open>uploadFile\<close> the
  reply to the stream opened with \<open>options\<close> and given what the call pipes into it (the
  file's bytes, or the resized bytes when it resizes, or nothing when the resize
  failed). Then the callback is invoked in the call. When the reply reports an error (a
  truthy \<open>error\<close>), the returned promise is rejected with exactly \<open>error\<close>, and the
  callback logs \<open>error\<close> at error severity and then rejects, the promise being
  unsettled until then. When the reply reports no error, the returned promise is
  fulfilled with exactly \<open>result\<close>, by the callback resolving it. Nothing is said about
  what else happens after the callback.
\<close>

theorem upload_settles_as_remote_reports:
  assumes "(evs = uploadFileByPath w filePath options \<and> reply = upload w filePath options)
         \<or> (evs = uploadFile w file options resizeOptions
            \<and> reply = upload_stream w options
                 (if resizeOptions \<noteq> None \<and> matches_image (mimetype file)
                  then (case sharp w (buffer file)
                               (spread [(''width'', JNum 800)] (spreadable resizeOptions)) of
                          Inl failure \<Rightarrow> None
                        | Inr resized \<Rightarrow> Some resized)
                  else Some (buffer file)))"
    and "reply = Some (error, result)"
  shows "Callback error result \<in> set evs
       \<and> (truthy error \<longrightarrow>
            promise_of evs = Rejected error
            \<and> (\<exists>before after.
                  evs = before @ [Callback error result, Log LError error, Reject error] @ after
                  \<and> promise_of before = Pending))
       \<and> (\<not> truthy error \<longrightarrow>
            promise_of evs = Fulfilled result
            \<and> (\<exists>before after.
                  evs = before @ [Callback error result, Resolve result] @ after
                  \<and> promise_of before = Pending))"
  using assms(1)
proof (elim disjE conjE)
  assume path: "evs = uploadFileByPath w filePath options" "reply = upload w filePath options"
  with assms(2)
  have "evs = [Upload filePath options] @ Callback error result #
          (if truthy error then [Log LError error, Reject error] else [Resolve result])"
    by (simp add: uploadFileByPath_def calls_back_def uploadFileByPath_callback_def)
  moreover have "promise_of [Upload filePath options] = Pending" by simp
  ultimately show ?thesis by (rule callback_settles)
next
  assume stream: "evs = uploadFile w file options resizeOptions"
    "reply = upload_stream w options
       (if resizeOptions \<noteq> None \<and> matches_image (mimetype file)
        then (case sharp w (buffer file)
                     (spread [(''width'', JNum 800)] (spreadable resizeOptions)) of
                Inl failure \<Rightarrow> None
              | Inr resized \<Rightarrow> Some resized)
        else Some (buffer file))"
  obtain before where shape: "evs = before @ calls_back reply uploadFile_callback"
    and quiet: "promise_of before = Pending"
    using uploadFile_until_reply [of w "file" options resizeOptions] stream by auto
  from shape assms(2)
  have "evs = before @ Callback error result #
          (if truthy error then [Log LError error, Reject error] else [Resolve result])"
    by (simp add: calls_back_def uploadFile_callback_def)
  then show ?thesis using quiet by (rule callback_settles)
qed

text \<open>
  Claim C8, at an upload by path that the remote service refuses for quota, at a
  streamed upload of a resized PNG that it refuses for quota, and at a streamed upload
  of a PDF that it accepts.
\<close>

theorem upload_settles_as_remote_reports_witness:
  "upload (healthy\<lparr>upload := \<lambda>filePath options. Some (quota, JUndefined)\<rparr>) ''a.jpg'' None
     = Some (quota, JUndefined)
   \<and> uploadFileByPath (healthy\<lparr>upload := \<lambda>filePath options. Some (quota, JUndefined)\<rparr>)
        ''a.jpg'' None
     = [Upload ''a.jpg'' None, Callback quota JUndefined, Log LError quota, Reject quota]
   \<and> promise_of (uploadFileByPath
        (healthy\<lparr>upload := \<lambda>filePath options. Some (quota, JUndefined)\<rparr>) ''a.jpg'' None)
     = Rejected quota
   \<and> upload_stream (healthy\<lparr>upload_stream := \<lambda>options bytes. Some (quota, JNull)\<rparr>) None
        (Some [7, 7])
     = Some (quota, JNull)
   \<and> promise_of (uploadFile (healthy\<lparr>upload_stream := \<lambda>options bytes. Some (quota, JNull)\<rparr>)
        png None (Some []))
     = Rejected quota
   \<and> upload_stream healthy None (Some [1, 2, 3]) = Some (JUndefined, JObj [(''bytes'', JNum 3)])
   \<and> promise_of (uploadFile healthy pdf None None) = Fulfilled (JObj [(''bytes'', JNum 3)])"
  using upload_settles_as_remote_reports
          [of "uploadFileByPath
                 (healthy\<lparr>upload := \<lambda>filePath options. Some (quota, JUndefined)\<rparr>) ''a.jpg'' None"
              "healthy\<lparr>upload := \<lambda>filePath options. Some (quota, JUndefined)\<rparr>"
              "''a.jpg''" None "Some (quota, JUndefined)" pdf None quota JUndefined]
        upload_settles_as_remote_reports
          [of "uploadFile (healthy\<lparr>upload_stream := \<lambda>options bytes. Some (quota, JNull)\<rparr>)
                 png None (Some [])"
              "healthy\<lparr>upload_stream := \<lambda>options bytes. Some (quota, JNull)\<rparr>"
              "''a.jpg''" None "Some (quota, JNull)" png "Some []" quota JNull]
        upload_settles_as_remote_reports
          [of "uploadFile healthy pdf None None" healthy "''a.jpg''" None
              "Some (JUndefined, JObj [(''bytes'', JNum 3)])" pdf None
              JUndefined "JObj [(''bytes'', JNum 3)]"]
  by (simp add: uploadFileByPath_def uploadFile_def healthy_def pdf_def png_def matches_image_def
      calls_back_def uploadFileByPath_callback_def uploadFile_callback_def quota_def spread_def)

subsection \<open>The module options and the per-call options\<close>

lemma call_method_keeps_service: "fst (call_method w this c) = this"
  by (cases c) simp_all

lemma pingCloudinary_no_Config: "filter is_Config (events (pingCloudinary w)) = []"
  using pingCloudinary_logs_only [of w] logs_no_Config [of "tl (events (pingCloudinary w))"]
  by (metis filter.simps(2) is_Config.simps(2))

lemma calls_back_no_Config:
  "filter is_Config (calls_back reply uploadFile_callback) = []"
  "filter is_Config (calls_back reply uploadFileByPath_callback) = []"
  by (simp_all add: calls_back_def uploadFile_callback_def uploadFileByPath_callback_def
      split: option.split)

lemma call_method_no_Config: "filter is_Config (trace_of (snd (call_method w this c))) = []"
  by (cases c)
     (simp_all add: pingCloudinary_no_Config uploadFile_def uploadFileByPath_def Let_def
        calls_back_no_Config getAsset_def listAssets_def deleteAssets_def updateAsset_def
        renameAsset_def deleteAsset_def getTransformedUrl_def getImageTag_def getVideoTag_def
        split: sum.split)

lemma run_keeps_service: "fst (run this calls) = this"
proof (induction calls arbitrary: this)
  case Nil
  show ?case by simp
next
  case (Cons wc calls)
  obtain w c where wc: "wc = (w, c)" by (cases wc)
  from Cons [of "fst (call_method w this c)"] call_method_keeps_service [of w this c]
  show ?case by (simp add: wc case_prod_beta Let_def)
qed

lemma run_no_Config: "filter is_Config (snd (run this calls)) = []"
proof (induction calls arbitrary: this)
  case Nil
  show ?case by simp
next
  case (Cons wc calls)
  obtain w c where wc: "wc = (w, c)" by (cases wc)
  from Cons [of "fst (call_method w this c)"] call_method_no_Config [of w this c]
  show ?case by (simp add: wc case_prod_beta Let_def)
qed

text \<open>
  Claim C9 says that defaults are merged into a per-call options object only in
  \<^verbatim>\<open>createSignedUploadUrl\<close>. At a PNG uploaded with the resize options
  \<^verbatim>\<open>{height: 600}\<close>, \<^verbatim>\<open>uploadFile\<close> gives sharp \<^verbatim>\<open>{width: 800, height: 600}\<close>, which is
  not the object the caller supplied.
\<close>

theorem uploadFile_merges_default_width:
  "filter is_Sharp (uploadFile healthy png None (Some [(''height'', JNum 600)]))
     = [Sharp [1, 2, 3] [(''width'', JNum 800), (''height'', JNum 600)]]
   \<and> [(''width'', JNum 800), (''height'', JNum 600)] \<noteq> [(''height'', JNum 600)]"
  by (simp add: uploadFile_def healthy_def png_def matches_image_def spread_def
      filter_calls_back_uploadFile)

text \<open>
  Claim C9, amended. The constructor stores the module options and applies a copy of
  them to the client once; after any sequence of calls of the service's methods, in
  any environments, the stored module options are the ones given to the constructor
  and no method has configured the client again. A per-call options object reaches the
  SDK as the caller supplied it, except in two places, each with one layer of
  defaults under the caller's properties: \<^verbatim>\<open>createSignedUploadUrl\<close> (the constant
  \<^verbatim>\<open>defaultCreateSignedUploadUrlOptions\<close>; calling with the merged object and no
  defaults gives the same result) and \<^verbatim>\<open>uploadFile\<close> (width 800 for the options it
  gives sharp, when it resizes).
\<close>

theorem module_options_applied_once:
  "fst (constructor moduleOptions) = \<lparr>this_options = moduleOptions\<rparr>
   \<and> fst (run (fst (constructor moduleOptions)) calls) = \<lparr>this_options = moduleOptions\<rparr>
   \<and> filter is_Config
        (snd (constructor moduleOptions) @ snd (run (fst (constructor moduleOptions)) calls))
       = [Config (spread [] moduleOptions)]
   \<and> hd (uploadFile w file options resizeOptions) = UploadStream options
   \<and> filter is_Sharp (uploadFile w file options resizeOptions)
       = (if resizeOptions \<noteq> None \<and> matches_image (mimetype file)
          then [Sharp (buffer file) (spread [(''width'', JNum 800)] (spreadable resizeOptions))]
          else [])
   \<and> hd (uploadFileByPath w filePath options) = Upload filePath options
   \<and> createSignedUploadUrl w this publicId resourceType options
       = createSignedUploadUrl (w\<lparr>defaultCreateSignedUploadUrlOptions := []\<rparr>) this publicId
           resourceType (Some (spread (defaultCreateSignedUploadUrlOptions w) (spreadable options)))
   \<and> getAsset publicId anyOptions = [Forward ''api.resource'' [JStr publicId, anyOptions]]
   \<and> listAssets anyOptions = [Forward ''api.resources'' [anyOptions]]
   \<and> deleteAssets publicIds anyOptions
       = [Forward ''api.delete_resources'' [JArr (map JStr publicIds), anyOptions]]
   \<and> updateAsset publicId anyOptions = [Forward ''api.update'' [JStr publicId, anyOptions]]
   \<and> renameAsset publicId toPublicId anyOptions
       = [Forward ''uploader.rename'' [JStr publicId, JStr toPublicId, anyOptions]]
   \<and> deleteAsset publicId anyOptions = [Forward ''uploader.destroy'' [JStr publicId, anyOptions]]
   \<and> getTransformedUrl publicId anyOptions = [Forward ''url'' [JStr publicId, anyOptions]]
   \<and> getImageTag publicId anyOptions = [Forward ''image'' [JStr publicId, anyOptions]]
   \<and> getVideoTag publicId anyOptions = [Forward ''video'' [JStr publicId, anyOptions]]"
proof (intro conjI)
  show "fst (constructor moduleOptions) = \<lparr>this_options = moduleOptions\<rparr>"
    by (simp add: constructor_def)
  show "fst (run (fst (constructor moduleOptions)) calls) = \<lparr>this_options = moduleOptions\<rparr>"
    by (simp add: run_keeps_service constructor_def)
  show "filter is_Config
        (snd (constructor moduleOptions) @ snd (run (fst (constructor moduleOptions)) calls))
       = [Config (spread [] moduleOptions)]"
    by (simp add: run_no_Config constructor_def)
  show "hd (uploadFile w file options resizeOptions) = UploadStream options"
    by (simp add: uploadFile_def)
  show "filter is_Sharp (uploadFile w file options resizeOptions)
       = (if resizeOptions \<noteq> None \<and> matches_image (mimetype file)
          then [Sharp (buffer file) (spread [(''width'', JNum 800)] (spreadable resizeOptions))]
          else [])"
    by (simp add: uploadFile_def Let_def filter_calls_back_uploadFile split: sum.split)
  show "hd (uploadFileByPath w filePath options) = Upload filePath options"
    by (simp add: uploadFileByPath_def)
  show "createSignedUploadUrl w this publicId resourceType options
       = createSignedUploadUrl (w\<lparr>defaultCreateSignedUploadUrlOptions := []\<rparr>) this publicId
           resourceType (Some (spread (defaultCreateSignedUploadUrlOptions w) (spreadable options)))"
    by (simp add: createSignedUploadUrl_def Let_def spread_def)
qed (simp_all add: getAsset_def listAssets_def deleteAssets_def updateAsset_def
        renameAsset_def deleteAsset_def getTransformedUrl_def getImageTag_def getVideoTag_def)

text \<open>
  Claim C9, amended, at a service constructed with three module options and then
  pinged, given a PNG that sharp cannot read, asked for a signed upload URL and asked
  to delete two assets: the service object is unchanged and the client was configured
  by the constructor alone.
\<close>

theorem module_options_applied_once_witness:
  "run (fst (constructor (this_options demo)))
          [(healthy, PingCloudinary), (corrupt, UploadFile png None (Some [])),
           (healthy, CreateSignedUploadUrl ''abc'' ''image'' None),
           (healthy, DeleteAssets [''a'', ''b''] JUndefined)]
     = (demo,
        [Ping, Log LLog (JStr ''Cloudinary connection ok''),
         UploadStream None, Sharp [1, 2, 3] [(''width'', JNum 800)],
         ExecutorRejected (JStr ''unsupported image format''),
         Forward ''api.delete_resources'' [JArr [JStr ''a'', JStr ''b''], JUndefined]])
   \<and> snd (constructor (this_options demo)) = [Config (this_options demo)]"
  using module_options_applied_once
          [of "this_options demo"
              "[(healthy, PingCloudinary), (corrupt, UploadFile png None (Some [])),
                (healthy, CreateSignedUploadUrl ''abc'' ''image'' None),
                (healthy, DeleteAssets [''a'', ''b''] JUndefined)]"
              corrupt png None "Some []" "''a.jpg''" demo "''abc''" "''image''" JUndefined
              "[''a'', ''b'']" "''b''"]
  by (simp add: constructor_def demo_def pingCloudinary_def ping_fulfilled_def healthy_def
      corrupt_def uploadFile_def png_def matches_image_def spread_def calls_back_def
      deleteAssets_def get_def lookup_def)

end
